theory Spec2Isabelle
  imports Complex_Main
begin

section \<open>JavaScript numbers and values\<close>

text \<open>
  A JavaScript number is an IEEE double. The finite ones are modelled by the reals
  (rounding is idealised away); the three special values are kept, because the
  evaluator can produce them: \<open>0 / 0\<close> is \<open>NaN\<close> and \<open>x / 0\<close> is an infinity.
  The sign of zero is not modelled.
\<close>

datatype jsnum = Fin real | PInf | NInf | NaN

fun js_add :: "jsnum \<Rightarrow> jsnum \<Rightarrow> jsnum" where
  "js_add (Fin a) (Fin b) = Fin (a + b)"
| "js_add NaN _ = NaN"
| "js_add _ NaN = NaN"
| "js_add PInf NInf = NaN"
| "js_add NInf PInf = NaN"
| "js_add PInf _ = PInf"
| "js_add _ PInf = PInf"
| "js_add NInf _ = NInf"
| "js_add _ NInf = NInf"

fun js_neg :: "jsnum \<Rightarrow> jsnum" where
  "js_neg (Fin a) = Fin (- a)"
| "js_neg PInf = NInf"
| "js_neg NInf = PInf"
| "js_neg NaN = NaN"

definition js_sub :: "jsnum \<Rightarrow> jsnum \<Rightarrow> jsnum" where
  "js_sub a b = js_add a (js_neg b)"

text \<open>An infinity of the given sign times a number.\<close>

fun inf_mul :: "bool \<Rightarrow> jsnum \<Rightarrow> jsnum" where
  "inf_mul pos (Fin b) = (if b = 0 then NaN else if (0 < b) = pos then PInf else NInf)"
| "inf_mul pos PInf = (if pos then PInf else NInf)"
| "inf_mul pos NInf = (if pos then NInf else PInf)"
| "inf_mul pos NaN = NaN"

fun js_mul :: "jsnum \<Rightarrow> jsnum \<Rightarrow> jsnum" where
  "js_mul (Fin a) (Fin b) = Fin (a * b)"
| "js_mul PInf y = inf_mul True y"
| "js_mul NInf y = inf_mul False y"
| "js_mul NaN _ = NaN"
| "js_mul x PInf = inf_mul True x"
| "js_mul x NInf = inf_mul False x"
| "js_mul _ NaN = NaN"

fun js_div :: "jsnum \<Rightarrow> jsnum \<Rightarrow> jsnum" where
  "js_div (Fin a) (Fin b) =
     (if b \<noteq> 0 then Fin (a / b)
      else if a = 0 then NaN
      else if 0 < a then PInf else NInf)"
| "js_div NaN _ = NaN"
| "js_div _ NaN = NaN"
| "js_div (Fin a) _ = Fin 0"
| "js_div PInf (Fin b) = (if 0 \<le> b then PInf else NInf)"
| "js_div NInf (Fin b) = (if 0 \<le> b then NInf else PInf)"
| "js_div _ _ = NaN"

fun js_lt :: "jsnum \<Rightarrow> jsnum \<Rightarrow> bool" where
  "js_lt (Fin a) (Fin b) = (a < b)"
| "js_lt NaN _ = False"
| "js_lt _ NaN = False"
| "js_lt NInf NInf = False"
| "js_lt NInf _ = True"
| "js_lt _ NInf = False"
| "js_lt PInf _ = False"
| "js_lt _ PInf = True"

text \<open>\<open>Math.pow(x, 2)\<close>, \<open>Math.cos\<close> and \<open>Math.sin\<close>.\<close>

definition js_pow2 :: "jsnum \<Rightarrow> jsnum" where
  "js_pow2 x = js_mul x x"

fun js_cos :: "jsnum \<Rightarrow> jsnum" where
  "js_cos (Fin a) = Fin (cos a)"
| "js_cos _ = NaN"

fun js_sin :: "jsnum \<Rightarrow> jsnum" where
  "js_sin (Fin a) = Fin (sin a)"
| "js_sin _ = NaN"

text \<open>The values a layer's property bag holds.\<close>

datatype jsval = Undefined | Null | Bool bool | Num jsnum | Str string

section \<open>Scene model of the player\<close>

text \<open>
  A numeric field of an animation as it arrives in the JSON of the scene: absent
  (reads as \<open>undefined\<close>), \<open>null\<close>, or a (finite) number.
\<close>

datatype numfield = Absent | NullF | NumF real

text \<open>\<open>x || d\<close>: the default replaces every falsy value, the number 0 included.\<close>

fun or_default :: "numfield \<Rightarrow> real \<Rightarrow> real" where
  "or_default (NumF r) d = (if r \<noteq> 0 then r else d)"
| "or_default _ d = d"

text \<open>\<open>x ?? 0\<close>: the default replaces only \<open>null\<close> and \<open>undefined\<close>.\<close>

fun nullish_zero :: "numfield \<Rightarrow> real" where
  "nullish_zero (NumF r) = r"
| "nullish_zero _ = 0"

text \<open>The field read as it is, with no default.\<close>

fun raw_field :: "numfield \<Rightarrow> jsval" where
  "raw_field Absent = Undefined"
| "raw_field NullF = Null"
| "raw_field (NumF r) = Num (Fin r)"

record animation =
  anim_property :: string
  anim_from :: numfield
  anim_to :: numfield
  anim_start :: numfield
  anim_end :: numfield
  anim_easing :: "string option"
  centerX :: numfield
  centerY :: numfield
  radius :: numfield

record layer =
  layer_id :: string
  layer_type :: string
  props :: "string \<Rightarrow> jsval"
  animations :: "animation list option"

record visualization =
  vis_id :: string
  duration :: real
  fps :: real
  layers :: "layer list option"

section \<open>Timeline evaluation (drawVisualization)\<close>

text \<open>\<open>applyEasing(t, easing)\<close>: a switch on the name, the default case is linear.\<close>

definition applyEasing :: "jsnum \<Rightarrow> string option \<Rightarrow> jsnum" where
  "applyEasing t easing =
     (if easing = Some ''ease-in'' then js_mul t t
      else if easing = Some ''ease-out'' then js_sub (Fin 1) (js_pow2 (js_sub (Fin 1) t))
      else if easing = Some ''ease-in-out'' then
        (if js_lt t (Fin (1 / 2)) then js_mul (js_mul (Fin 2) t) t
         else js_sub (Fin 1)
                (js_div (js_pow2 (js_add (js_mul (Fin (- 2)) t) (Fin 2))) (Fin 2)))
      else t)"

text \<open>
  The body of \<open>layer.animations.forEach\<close>: one animation applied to the working copy of
  the layer's properties, at time \<open>currentTime\<close> of a visualization of duration \<open>dur\<close>.
\<close>

definition apply_animation ::
  "real \<Rightarrow> real \<Rightarrow> (string \<Rightarrow> jsval) \<Rightarrow> animation \<Rightarrow> (string \<Rightarrow> jsval)" where
  "apply_animation dur currentTime ps anim =
     (let s = or_default (anim_start anim) 0;
          e = or_default (anim_end anim) dur
      in if s \<le> currentTime \<and> currentTime \<le> e then
           (let p = js_div (Fin (currentTime - s)) (Fin (e - s));
                eased = applyEasing p (anim_easing anim)
            in if anim_property anim = ''orbit'' then
                 (let angle = js_mul (Fin (2 * pi)) eased;
                      ps1 = ps(''x'' := Num (js_add (Fin (or_default (centerX anim) 0))
                              (js_mul (js_cos angle) (Fin (or_default (radius anim) 50)))))
                  in ps1(''y'' := Num (js_add (Fin (or_default (centerY anim) 0))
                              (js_mul (js_sin angle) (Fin (or_default (radius anim) 50))))))
               else
                 ps(anim_property anim :=
                      Num (js_add (Fin (nullish_zero (anim_from anim)))
                        (js_mul (Fin (nullish_zero (anim_to anim) - nullish_zero (anim_from anim)))
                           eased))))
         else if e < currentTime \<and> anim_property anim \<noteq> ''orbit'' then
           ps(anim_property anim := raw_field (anim_to anim))
         else ps)"

text \<open>
  The properties of one layer at \<open>currentTime\<close>: the copy of \<open>layer.props\<close> after all
  animations were applied in their order. They are what \<open>drawLayer\<close> receives.
\<close>

definition resolve_layer :: "real \<Rightarrow> real \<Rightarrow> layer \<Rightarrow> string \<times> (string \<Rightarrow> jsval)" where
  "resolve_layer dur currentTime l =
     (layer_type l,
      case animations l of
        None \<Rightarrow> props l
      | Some as \<Rightarrow> foldl (apply_animation dur currentTime) (props l) as)"

text \<open>
  \<open>drawVisualization(ctx, visualization, progress)\<close>, as the sequence of calls
  \<open>drawLayer(ctx, type, props)\<close> it makes, one per layer in declaration order.
\<close>

definition drawVisualization ::
  "visualization \<Rightarrow> real \<Rightarrow> (string \<times> (string \<Rightarrow> jsval)) list" where
  "drawVisualization v progress =
     (case layers v of
        None \<Rightarrow> []
      | Some ls \<Rightarrow> map (resolve_layer (duration v) (progress * duration v)) ls)"

text \<open>
  The test of the forEach body for its active branch, and the property names the body
  can assign: \<open>x\<close> and \<open>y\<close> for an orbit, the named property otherwise.
\<close>

definition in_window :: "real \<Rightarrow> real \<Rightarrow> animation \<Rightarrow> bool" where
  "in_window dur currentTime anim =
     (or_default (anim_start anim) 0 \<le> currentTime \<and>
      currentTime \<le> or_default (anim_end anim) dur)"

definition written_keys :: "animation \<Rightarrow> string set" where
  "written_keys anim =
     (if anim_property anim = ''orbit'' then {''x'', ''y''} else {anim_property anim})"

text \<open>
  Whether the forEach body assigns the property \<open>k\<close> when it runs on \<open>anim\<close>: in the
  active branch it assigns the properties above, in the branch past the end the named
  property of an animation that is no orbit, and before the start nothing.
\<close>

definition assigns :: "real \<Rightarrow> real \<Rightarrow> animation \<Rightarrow> string \<Rightarrow> bool" where
  "assigns dur currentTime anim k =
     (if in_window dur currentTime anim then k \<in> written_keys anim
      else or_default (anim_end anim) dur < currentTime \<and> anim_property anim \<noteq> ''orbit''
           \<and> k = anim_property anim)"

subsection \<open>Scenes used as examples\<close>

definition single_layer_vis ::
  "real \<Rightarrow> string \<Rightarrow> (string \<Rightarrow> jsval) \<Rightarrow> animation list \<Rightarrow> visualization" where
  "single_layer_vis d ty base as =
     \<lparr>vis_id = ''vis_1'', duration = d, fps = 30,
      layers = Some [\<lparr>layer_id = ''l1'', layer_type = ty, props = base,
                      animations = Some as\<rparr>]\<rparr>"

text \<open>An animation of property \<open>k\<close> with a linear easing and no orbit fields.\<close>

definition linear_animation ::
  "string \<Rightarrow> numfield \<Rightarrow> numfield \<Rightarrow> numfield \<Rightarrow> numfield \<Rightarrow> animation" where
  "linear_animation k f t s e =
     \<lparr>anim_property = k, anim_from = f, anim_to = t, anim_start = s, anim_end = e,
      anim_easing = Some ''linear'', centerX = Absent, centerY = Absent, radius = Absent\<rparr>"

text \<open>An orbit around (350, 225) of radius 100, with a linear easing.\<close>

definition orbit_animation ::
  "numfield \<Rightarrow> numfield \<Rightarrow> numfield \<Rightarrow> numfield \<Rightarrow> animation" where
  "orbit_animation f t s e =
     \<lparr>anim_property = ''orbit'', anim_from = f, anim_to = t, anim_start = s, anim_end = e,
      anim_easing = Some ''linear'', centerX = NumF 350, centerY = NumF 225,
      radius = NumF 100\<rparr>"

text \<open>A property bag with \<open>x = 10\<close> and \<open>y = 20\<close> and nothing else.\<close>

definition base_props :: "string \<Rightarrow> jsval" where
  "base_props = (\<lambda>_. Undefined)(''x'' := Num (Fin 10), ''y'' := Num (Fin 20))"

text \<open>
  Three animations of \<open>x\<close>: two that overlap between 1000 and 3000, and a third,
  declared last, that ends at 500.
\<close>

definition three_x_animations :: "animation list" where
  "three_x_animations =
     [linear_animation ''x'' (NumF 0) (NumF 100) (NumF 0) (NumF 4000),
      linear_animation ''x'' (NumF 200) (NumF 300) (NumF 1000) (NumF 3000),
      linear_animation ''x'' (NumF 500) (NumF 600) (NumF 0) (NumF 500)]"

section \<open>Broadcast hub (server)\<close>

text \<open>
  How a call ends: normally, or with an exception propagating. Both carry the state the
  call left behind, since a write that throws does not undo an earlier write.
\<close>

datatype 's completion = Normal 's | Throw 's

fun state_of :: "'s completion \<Rightarrow> 's" where
  "state_of (Normal s) = s"
| "state_of (Throw s) = s"

record 'r client =
  client_id :: string
  res :: 'r

definition event_line :: "string \<Rightarrow> string" where
  "event_line event = ''event: '' @ event @ [CHR 0x0A]"

definition data_line :: "string \<Rightarrow> string" where
  "data_line js = ''data: '' @ js @ [CHR 0x0A, CHR 0x0A]"

text \<open>
  The statements inside \<open>try\<close> of the callback of \<open>broadcast\<close>, on the stream \<open>r\<close> of one
  client. The transport is a parameter: \<open>write r s\<close> is \<open>r.write(s)\<close>, which may throw;
  \<open>stringify d\<close> is \<open>JSON.stringify(d)\<close>, with \<open>None\<close> when it throws.
\<close>

definition send_event ::
  "('r \<Rightarrow> string \<Rightarrow> 'r completion) \<Rightarrow> ('d \<Rightarrow> string option) \<Rightarrow> string \<Rightarrow> 'd \<Rightarrow> 'r
   \<Rightarrow> 'r completion" where
  "send_event write stringify event d r =
     (case write r (event_line event) of
        Throw r1 \<Rightarrow> Throw r1
      | Normal r1 \<Rightarrow>
          (case stringify d of
             None \<Rightarrow> Throw r1
           | Some js \<Rightarrow> write r1 (data_line js)))"

text \<open>The callback: \<open>try { ... } catch {}\<close>.\<close>

definition broadcast_callback ::
  "('r \<Rightarrow> string \<Rightarrow> 'r completion) \<Rightarrow> ('d \<Rightarrow> string option) \<Rightarrow> string \<Rightarrow> 'd
   \<Rightarrow> 'r client \<Rightarrow> 'r client completion" where
  "broadcast_callback write stringify event d c =
     (case send_event write stringify event d (res c) of
        Throw r1 \<Rightarrow> Normal (c\<lparr>res := r1\<rparr>)
      | Normal r1 \<Rightarrow> Normal (c\<lparr>res := r1\<rparr>))"

text \<open>\<open>Array.prototype.forEach\<close>: an exception of the callback ends the loop.\<close>

fun forEach :: "('a \<Rightarrow> 'a completion) \<Rightarrow> 'a list \<Rightarrow> 'a list completion" where
  "forEach f [] = Normal []"
| "forEach f (x # xs) =
     (case f x of
        Throw x1 \<Rightarrow> Throw (x1 # xs)
      | Normal x1 \<Rightarrow>
          (case forEach f xs of
             Throw xs1 \<Rightarrow> Throw (x1 # xs1)
           | Normal xs1 \<Rightarrow> Normal (x1 # xs1)))"

definition broadcast ::
  "('r \<Rightarrow> string \<Rightarrow> 'r completion) \<Rightarrow> ('d \<Rightarrow> string option) \<Rightarrow> string \<Rightarrow> 'd
   \<Rightarrow> 'r client list \<Rightarrow> 'r client list completion" where
  "broadcast write stringify event d cs =
     forEach (broadcast_callback write stringify event d) cs"

text \<open>
  A transport for examples: a stream is the list of chunks written to it and a flag; a
  write to a stream whose flag is set throws.
\<close>

definition log_write :: "string list \<times> bool \<Rightarrow> string \<Rightarrow> (string list \<times> bool) completion" where
  "log_write r s = (if snd r then Throw r else Normal (fst r @ [s], snd r))"

section \<open>Scene normalization (groqVizJSON)\<close>

text \<open>
  A value produced by \<open>JSON.parse\<close>. An object is the list of its properties, each key
  once. A property read gives \<open>json option\<close>, with \<open>None\<close> for \<open>undefined\<close>.
\<close>

datatype json =
  JNull | JBool bool | JNum real | JStr string | JArr "json list" | JObj "(string \<times> json) list"

fun truthy :: "json \<Rightarrow> bool" where
  "truthy JNull = False"
| "truthy (JBool b) = b"
| "truthy (JNum r) = (r \<noteq> 0)"
| "truthy (JStr s) = (s \<noteq> [])"
| "truthy (JArr _) = True"
| "truthy (JObj _) = True"

text \<open>
  \<open>v.k\<close> for a value that is not \<open>null\<close> and a key \<open>k\<close> that is none of the built-in
  properties of arrays and strings (the code reads \<open>visualization\<close>, \<open>id\<close>, \<open>duration\<close>,
  \<open>fps\<close> and \<open>layers\<close>).
\<close>

fun get_prop :: "json \<Rightarrow> string \<Rightarrow> json option" where
  "get_prop (JObj kvs) k = map_of kvs k"
| "get_prop _ k = None"

text \<open>\<open>a || b\<close>.\<close>

fun js_or :: "json option \<Rightarrow> json \<Rightarrow> json" where
  "js_or None b = b"
| "js_or (Some a) b = (if truthy a then a else b)"

text \<open>A natural number in decimal, as a template literal prints \<open>Date.now()\<close>.\<close>

fun show_nat :: "nat \<Rightarrow> string" where
  "show_nat n =
     (if n < 10 then [''0123456789'' ! n]
      else show_nat (n div 10) @ [''0123456789'' ! (n mod 10)])"

declare show_nat.simps [simp del]

datatype error = TypeError | UpstreamError

text \<open>
  What the generation backend did for the scene request: the request failed (the fetch
  threw, the status was not ok, or the body was no JSON with a text content), or it
  returned a content that \<open>JSON.parse\<close> rejects, or one that it parses.
\<close>

datatype viz_reply = VizThrows | VizUnparsable | VizParsed json

text \<open>
  \<open>groqVizJSON\<close>, from the parse on. It returns \<open>parsed\<close> after assigning
  \<open>parsed.visualization\<close>; its caller reads only that property, which is what the model
  returns. \<open>now\<close> is the value of \<open>Date.now()\<close>. The file is an ES module, so the code is
  strict: assigning a property to a number, string or boolean throws a TypeError, and
  so does reading a property of \<open>null\<close>.
\<close>

definition normalize_visualization :: "json \<Rightarrow> nat \<Rightarrow> json" where
  "normalize_visualization v now =
     JObj [(''id'', js_or (get_prop v ''id'') (JStr (''vis_'' @ show_nat now))),
           (''duration'', js_or (get_prop v ''duration'') (JNum 8000)),
           (''fps'', js_or (get_prop v ''fps'') (JNum 30)),
           (''layers'', case get_prop v ''layers'' of
                          Some (JArr ls) \<Rightarrow> JArr ls
                        | _ \<Rightarrow> JArr [])]"

definition default_scene :: "nat \<Rightarrow> json" where
  "default_scene now =
     JObj [(''text'', JStr ''Visualization''),
           (''visualization'',
              JObj [(''id'', JStr (''vis_'' @ show_nat now)), (''duration'', JNum 8000),
                    (''fps'', JNum 30), (''layers'', JArr [])])]"

fun assign_visualization :: "json \<Rightarrow> json \<Rightarrow> error + json" where
  "assign_visualization (JObj kvs) n = Inr n"
| "assign_visualization (JArr xs) n = Inr n"
| "assign_visualization _ n = Inl TypeError"

definition normalize_parsed :: "json \<Rightarrow> nat \<Rightarrow> error + json" where
  "normalize_parsed parsed now =
     (if parsed = JNull then Inl TypeError
      else let v = js_or (get_prop parsed ''visualization'') (JObj [])
           in assign_visualization parsed (normalize_visualization v now))"

fun groqVizJSON :: "viz_reply \<Rightarrow> nat \<Rightarrow> error + json" where
  "groqVizJSON VizThrows now = Inl UpstreamError"
| "groqVizJSON VizUnparsable now = normalize_parsed (default_scene now) now"
| "groqVizJSON (VizParsed parsed) now = normalize_parsed parsed now"

section \<open>Submission (POST /api/questions)\<close>

record question =
  q_id :: string
  q_userId :: string
  q_question :: string
  q_answerId :: string
  q_timestamp :: string

record answer =
  a_id :: string
  a_text :: string
  a_visualization :: json
  a_timestamp :: string

text \<open>The body of the request, with its two fields as strings when they are present.\<close>

record body =
  body_userId :: "string option"
  body_question :: "string option"

text \<open>What \<open>res\<close> of the request was made to send.\<close>

datatype http_reply =
  BadRequest string
| Success string string

text \<open>
  The arrays \<open>questions\<close>, \<open>answers\<close> and \<open>clients\<close> of the module, and the reply sent
  for the request being handled.
\<close>

record 'r server =
  questions :: "question list"
  answers :: "answer list"
  clients :: "'r client list"
  reply :: "http_reply option"

text \<open>The data of the events the handler broadcasts.\<close>

datatype payload =
  QuestionCreated question
| GenerationStarted string string
| AnswerPartial string string string
| AnswerCreated answer

text \<open>
  The values the handler takes from outside, one per call site, each of which runs at
  most once in a request: the results of \<open>uuidv4()\<close> (lines 183, 184, 209 and 216), of
  \<open>Date.now()\<close> (in \<open>groqVizJSON\<close> and on line 211) and of
  \<open>new Date().toISOString()\<close> (lines 185, 201 and 212).
\<close>

record env =
  uuid_question :: string
  uuid_answer :: string
  uuid_fallback :: string
  uuid_reply :: string
  now_viz :: nat
  now_fallback :: nat
  iso_question :: string
  iso_answer :: string
  iso_fallback :: string

text \<open>
  What the generation backend did for the text request: the deltas \<open>groqStreamText\<close>
  passed to its callback, and whether it threw after them (at once, when there are none)
  in place of returning.
\<close>

record stream_reply =
  deltas :: "string list"
  stream_throws :: bool

text \<open>
  \<open>String.prototype.trim\<close>. A string is its UTF-8 bytes here, so the white space and line
  terminators that \<open>trim\<close> removes are listed by their encodings: U+0009 to U+000D,
  U+0020, U+00A0, U+1680, U+2000 to U+200A, U+2028, U+2029, U+202F, U+205F, U+3000 and
  U+FEFF.
\<close>

definition white_space :: "string list" where
  "white_space =
     [[CHR 0x09], [CHR 0x0A], [CHR 0x0B], [CHR 0x0C], [CHR 0x0D], [CHR 0x20],
      [CHR 0xC2, CHR 0xA0],
      [CHR 0xE1, CHR 0x9A, CHR 0x80],
      [CHR 0xE2, CHR 0x80, CHR 0x80], [CHR 0xE2, CHR 0x80, CHR 0x81],
      [CHR 0xE2, CHR 0x80, CHR 0x82], [CHR 0xE2, CHR 0x80, CHR 0x83],
      [CHR 0xE2, CHR 0x80, CHR 0x84], [CHR 0xE2, CHR 0x80, CHR 0x85],
      [CHR 0xE2, CHR 0x80, CHR 0x86], [CHR 0xE2, CHR 0x80, CHR 0x87],
      [CHR 0xE2, CHR 0x80, CHR 0x88], [CHR 0xE2, CHR 0x80, CHR 0x89],
      [CHR 0xE2, CHR 0x80, CHR 0x8A],
      [CHR 0xE2, CHR 0x80, CHR 0xA8], [CHR 0xE2, CHR 0x80, CHR 0xA9],
      [CHR 0xE2, CHR 0x80, CHR 0xAF],
      [CHR 0xE2, CHR 0x81, CHR 0x9F],
      [CHR 0xE3, CHR 0x80, CHR 0x80],
      [CHR 0xEF, CHR 0xBB, CHR 0xBF]]"

text \<open>The string without the first of the words \<open>ws\<close> it starts with, if there is one.\<close>

fun strip_prefix :: "string list \<Rightarrow> string \<Rightarrow> string option" where
  "strip_prefix [] s = None"
| "strip_prefix (w # ws) s =
     (if w \<noteq> [] \<and> take (length w) s = w then Some (drop (length w) s)
      else strip_prefix ws s)"

text \<open>The string without every leading occurrence of the words \<open>ws\<close>.\<close>

function trim_with :: "string list \<Rightarrow> string \<Rightarrow> string" where
  "trim_with ws s = (case strip_prefix ws s of None \<Rightarrow> s | Some r \<Rightarrow> trim_with ws r)"
  by pat_completeness auto
termination
proof (relation "measure (\<lambda>(ws, s). length s)")
  show "wf (measure (\<lambda>(ws :: string list, s :: string). length s))"
    by simp
next
  fix ws :: "string list" and s r :: string
  assume "strip_prefix ws s = Some r"
  then have "length r < length s"
  proof (induction ws)
    case Nil
    then show ?case by simp
  next
    case (Cons w ws)
    show ?case
    proof (cases "w \<noteq> [] \<and> take (length w) s = w")
      case True
      then have "r = drop (length w) s" using Cons.prems by simp
      moreover have "s \<noteq> []" using True by auto
      moreover have "0 < length w" using True by simp
      ultimately show ?thesis by simp
    next
      case False
      then have "strip_prefix ws s = Some r" using Cons.prems by auto
      then show ?thesis by (rule Cons.IH)
    qed
  qed
  then show "((ws, r), (ws, s)) \<in> measure (\<lambda>(ws, s). length s)"
    by simp
qed

declare trim_with.simps [simp del]

text \<open>
  White space is removed at both ends; at the end, by reading the bytes backwards. In
  well-formed UTF-8 the first byte of each encoding above starts a code point, so the
  bytes removed at the end are whole white-space code points.
\<close>

definition trim :: "string \<Rightarrow> string" where
  "trim s = rev (trim_with (map rev white_space) (rev (trim_with white_space s)))"

text \<open>A field of the body inside a template literal.\<close>

fun template_str :: "string option \<Rightarrow> string" where
  "template_str None = ''undefined''"
| "template_str (Some s) = s"

text \<open>A call of \<open>broadcast\<close> from the handler, on the clients of the server.\<close>

definition do_broadcast ::
  "('r \<Rightarrow> string \<Rightarrow> 'r completion) \<Rightarrow> (payload \<Rightarrow> string option) \<Rightarrow> string \<Rightarrow> payload
   \<Rightarrow> 'r server \<Rightarrow> 'r server completion" where
  "do_broadcast write stringify event d st =
     (case broadcast write stringify event d (clients st) of
        Throw cs \<Rightarrow> Throw (st\<lparr>clients := cs\<rparr>)
      | Normal cs \<Rightarrow> Normal (st\<lparr>clients := cs\<rparr>))"

text \<open>
  The callback of \<open>groqStreamText\<close>, run on each delta in turn: the text grows and the
  whole of it is broadcast.
\<close>

fun stream_deltas ::
  "('r \<Rightarrow> string \<Rightarrow> 'r completion) \<Rightarrow> (payload \<Rightarrow> string option) \<Rightarrow> string \<Rightarrow> string
   \<Rightarrow> string list \<Rightarrow> string \<Rightarrow> 'r server \<Rightarrow> ('r server \<times> string) completion" where
  "stream_deltas write stringify answerId questionId [] text st = Normal (st, text)"
| "stream_deltas write stringify answerId questionId (delta # ds) text st =
     (case do_broadcast write stringify ''answer_partial''
             (AnswerPartial answerId (text @ delta) questionId) st of
        Throw st1 \<Rightarrow> Throw (st1, text @ delta)
      | Normal st1 \<Rightarrow> stream_deltas write stringify answerId questionId ds (text @ delta) st1)"

definition groqStreamText ::
  "('r \<Rightarrow> string \<Rightarrow> 'r completion) \<Rightarrow> (payload \<Rightarrow> string option) \<Rightarrow> string \<Rightarrow> string
   \<Rightarrow> stream_reply \<Rightarrow> 'r server \<Rightarrow> ('r server \<times> string) completion" where
  "groqStreamText write stringify answerId questionId stream st =
     (case stream_deltas write stringify answerId questionId (deltas stream) [] st of
        Throw x \<Rightarrow> Throw x
      | Normal x \<Rightarrow> if stream_throws stream then Throw x else Normal x)"

text \<open>The \<open>try\<close> block of the handler.\<close>

definition try_block ::
  "('r \<Rightarrow> string \<Rightarrow> 'r completion) \<Rightarrow> (payload \<Rightarrow> string option) \<Rightarrow> env
   \<Rightarrow> stream_reply \<Rightarrow> viz_reply \<Rightarrow> body \<Rightarrow> 'r server \<Rightarrow> 'r server completion" where
  "try_block write stringify orc stream viz b st =
     (case (body_userId b, body_question b) of
        (Some userId, Some question) \<Rightarrow>
          if userId = [] \<or> question = [] then
            Normal (st\<lparr>reply := Some (BadRequest ''Missing userId or question'')\<rparr>)
          else
            (let questionId = ''q_'' @ uuid_question orc;
                 answerId = ''a_'' @ uuid_answer orc;
                 qrec = \<lparr>q_id = questionId, q_userId = userId, q_question = trim question,
                         q_answerId = answerId, q_timestamp = iso_question orc\<rparr>;
                 st1 = st\<lparr>questions := questions st @ [qrec]\<rparr>
             in case do_broadcast write stringify ''question_created'' (QuestionCreated qrec) st1 of
                  Throw st2 \<Rightarrow> Throw st2
                | Normal st2 \<Rightarrow>
             (case do_broadcast write stringify ''generation_started''
                     (GenerationStarted answerId questionId) st2 of
                  Throw st3 \<Rightarrow> Throw st3
                | Normal st3 \<Rightarrow>
             (case groqStreamText write stringify answerId questionId stream st3 of
                  Throw (st4, text) \<Rightarrow> Throw st4
                | Normal (st4, text) \<Rightarrow>
             (case groqVizJSON viz (now_viz orc) of
                  Inl err \<Rightarrow> Throw st4
                | Inr vis \<Rightarrow>
                    (let ans = \<lparr>a_id = answerId, a_text = text, a_visualization = vis,
                                a_timestamp = iso_answer orc\<rparr>;
                         st5 = st4\<lparr>answers := answers st4 @ [ans]\<rparr>
                     in case do_broadcast write stringify ''answer_created'' (AnswerCreated ans) st5 of
                          Throw st6 \<Rightarrow> Throw st6
                        | Normal st6 \<Rightarrow>
                            Normal (st6\<lparr>reply := Some (Success questionId answerId)\<rparr>))))))
      | _ \<Rightarrow> Normal (st\<lparr>reply := Some (BadRequest ''Missing userId or question'')\<rparr>))"

text \<open>The \<open>catch\<close> block of the handler.\<close>

definition fallback_answer :: "env \<Rightarrow> body \<Rightarrow> answer" where
  "fallback_answer orc b =
     \<lparr>a_id = ''a_'' @ uuid_fallback orc,
      a_text = ''Here is a brief overview of '' @ [CHR 0x22] @ template_str (body_question b)
                 @ [CHR 0x22] @ ''.'',
      a_visualization =
        JObj [(''id'', JStr (''vis_'' @ show_nat (now_fallback orc))), (''duration'', JNum 7000),
              (''fps'', JNum 30), (''layers'', JArr [])],
      a_timestamp = iso_fallback orc\<rparr>"

definition catch_block ::
  "('r \<Rightarrow> string \<Rightarrow> 'r completion) \<Rightarrow> (payload \<Rightarrow> string option) \<Rightarrow> env \<Rightarrow> body
   \<Rightarrow> 'r server \<Rightarrow> 'r server completion" where
  "catch_block write stringify orc b st =
     (let fallback = fallback_answer orc b;
          st1 = st\<lparr>answers := answers st @ [fallback]\<rparr>
      in case do_broadcast write stringify ''answer_created'' (AnswerCreated fallback) st1 of
           Throw st2 \<Rightarrow> Throw st2
         | Normal st2 \<Rightarrow>
             Normal (st2\<lparr>reply := Some (Success (''q_'' @ uuid_reply orc) (a_id fallback))\<rparr>))"

text \<open>
  The handler of \<open>POST /api/questions\<close>. A result \<open>Throw\<close> is an exception that leaves the
  handler, with no reply sent.
\<close>

definition post_questions ::
  "('r \<Rightarrow> string \<Rightarrow> 'r completion) \<Rightarrow> (payload \<Rightarrow> string option) \<Rightarrow> env
   \<Rightarrow> stream_reply \<Rightarrow> viz_reply \<Rightarrow> body \<Rightarrow> 'r server \<Rightarrow> 'r server completion" where
  "post_questions write stringify orc stream viz b st =
     (case try_block write stringify orc stream viz b st of
        Normal st1 \<Rightarrow> Normal st1
      | Throw st1 \<Rightarrow> catch_block write stringify orc b st1)"

text \<open>Whether the generation of a request fails: one of the two external calls throws.\<close>

definition generation_fails :: "env \<Rightarrow> stream_reply \<Rightarrow> viz_reply \<Rightarrow> bool" where
  "generation_fails orc stream viz =
     (stream_throws stream \<or> isl (groqVizJSON viz (now_viz orc)))"

subsection \<open>A request used as an example\<close>

definition example_env :: env where
  "example_env =
     \<lparr>uuid_question = ''1111'', uuid_answer = ''2222'', uuid_fallback = ''3333'',
      uuid_reply = ''4444'', now_viz = 1700000000000, now_fallback = 1700000000500,
      iso_question = ''2023-11-14T22:13:20.000Z'', iso_answer = ''2023-11-14T22:13:21.000Z'',
      iso_fallback = ''2023-11-14T22:13:20.500Z''\<rparr>"

definition example_body :: body where
  "example_body = \<lparr>body_userId = Some ''u1'', body_question = Some ''What is photosynthesis?''\<rparr>"

definition empty_server :: "(string list \<times> bool) server" where
  "empty_server = \<lparr>questions = [], answers = [], clients = [], reply = None\<rparr>"

definition failing_stream :: stream_reply where
  "failing_stream = \<lparr>deltas = [], stream_throws = True\<rparr>"

definition no_stringify :: "payload \<Rightarrow> string option" where
  "no_stringify d = Some ''{}''"

definition three_clients :: "(string list \<times> bool) client list" where
  "three_clients =
     [\<lparr>client_id = ''c1'', res = ([], False)\<rparr>,
      \<lparr>client_id = ''c2'', res = ([], True)\<rparr>,
      \<lparr>client_id = ''c3'', res = ([], False)\<rparr>]"

definition malformed_scene :: json where
  "malformed_scene =
     JObj [(''text'', JStr ''hi''),
           (''visualization'',
              JObj [(''id'', JStr []), (''duration'', JNum 0), (''layers'', JStr ''none'')])]"

definition negative_duration_scene :: json where
  "negative_duration_scene = JObj [(''visualization'', JObj [(''duration'', JNum (- 5))])]"

definition two_deltas :: stream_reply where
  "two_deltas = \<lparr>deltas = [''Plants '', ''use light.''], stream_throws = False\<rparr>"

definition one_client_server :: "(string list \<times> bool) server" where
  "one_client_server =
     \<lparr>questions = [], answers = [],
      clients = [\<lparr>client_id = ''c1'', res = ([], True)\<rparr>], reply = None\<rparr>"

section \<open>Properties of the timeline evaluation\<close>

lemma apply_animation_unassigned:
  "\<not> assigns dur ct c k \<Longrightarrow> apply_animation dur ct q c k = q k"
  by (auto simp: apply_animation_def assigns_def in_window_def written_keys_def Let_def
      split: if_splits)

lemma foldl_unassigned:
  "\<forall>c \<in> set post. \<not> assigns dur ct c k \<Longrightarrow> foldl (apply_animation dur ct) q post k = q k"
  by (induction post arbitrary: q) (simp_all add: apply_animation_unassigned)

lemma apply_animation_overwrites:
  "in_window dur ct a \<Longrightarrow> k \<in> written_keys a \<Longrightarrow>
   apply_animation dur ct q a k = apply_animation dur ct ps a k"
  by (auto simp: apply_animation_def written_keys_def in_window_def Let_def split: if_splits)

lemma apply_animation_past_end:
  assumes "or_default (anim_end a) dur < ct"
  shows "apply_animation dur ct ps a =
     (if anim_property a = ''orbit'' then ps
      else ps(anim_property a := raw_field (anim_to a)))"
  using assms by (simp add: apply_animation_def Let_def)

lemma applyEasing_NaN: "applyEasing NaN easing = NaN"
  by (simp add: applyEasing_def js_pow2_def js_sub_def)

text \<open>
  C3. The claim: in a window of width zero the evaluator takes the interpolation
  parameter to be 1, and the property resolves to a finite number. The code has no such
  case: with \<open>start = end = t\<close> for a number \<open>t\<close> other than 0, at \<open>currentTime = t\<close> the
  branch of the active window runs, the parameter is \<open>0 / 0\<close>, and the property (for an
  orbit, \<open>x\<close> and \<open>y\<close>) resolves to \<open>NaN\<close>, whatever the easing, \<open>from\<close> and \<open>to\<close> are.
\<close>

theorem zero_width_window_yields_NaN:
  assumes "anim_start a = NumF t" and "anim_end a = NumF t" and "t \<noteq> 0"
  shows "apply_animation dur t ps a =
     (if anim_property a = ''orbit'' then ps(''x'' := Num NaN, ''y'' := Num NaN)
      else ps(anim_property a := Num NaN))"
  using assms by (simp add: apply_animation_def Let_def applyEasing_NaN)

theorem zero_width_window_yields_NaN_witness:
  "drawVisualization
     (single_layer_vis 5000 ''circle'' base_props
        [linear_animation ''x'' (NumF 0) (NumF 100) (NumF 1000) (NumF 1000)]) (1 / 5)
   = [(''circle'', base_props(''x'' := Num NaN))]"
  using zero_width_window_yields_NaN
    [of "linear_animation ''x'' (NumF 0) (NumF 100) (NumF 1000) (NumF 1000)" 1000 5000 base_props]
  by (simp add: drawVisualization_def single_layer_vis_def resolve_layer_def
      linear_animation_def)

text \<open>
  C4, as the claim states it, fails: an orbit whose \<open>end\<close> is 0 has its end replaced by
  the duration (\<open>anim.end || visualization.duration\<close>), so at progress 1/2 of a
  visualization of 5000 ms, where \<open>currentTime = 2500 > end\<close>, the orbit is active and
  moves \<open>x\<close> from 10 to 250.
\<close>

theorem orbit_end_zero_counterexample:
  "anim_end (orbit_animation Absent Absent (NumF 0) (NumF 0)) = NumF 0
   \<and> (0 :: real) < 1 / 2 * 5000
   \<and> drawVisualization
       (single_layer_vis 5000 ''circle'' base_props
          [orbit_animation Absent Absent (NumF 0) (NumF 0)]) (1 / 2)
     = [(''circle'', base_props(''x'' := Num (Fin 250), ''y'' := Num (Fin 225)))]
   \<and> (base_props(''x'' := Num (Fin 250), ''y'' := Num (Fin 225))) ''x'' \<noteq> base_props ''x''"
  by (simp add: drawVisualization_def single_layer_vis_def resolve_layer_def
      orbit_animation_def apply_animation_def applyEasing_def Let_def base_props_def)

text \<open>
  C4, amended: for every animation with property \<open>orbit\<close> whose \<open>end\<close> is a number other
  than 0, at every \<open>currentTime > end\<close> the evaluator applies no update: the properties
  are what the rules before it produced, and the layer resolves as if the animation were
  not in the list. An animation of another property with the same \<open>end\<close> is frozen at
  its raw \<open>to\<close>.
\<close>

theorem orbit_past_end_no_update:
  assumes "anim_property a = ''orbit''" and "anim_end a = NumF en" and "en \<noteq> 0"
    and "en < ct"
  shows "apply_animation dur ct ps a = ps
     \<and> foldl (apply_animation dur ct) base (pre @ a # post)
         = foldl (apply_animation dur ct) base (pre @ post)
     \<and> (\<forall>b. anim_property b \<noteq> ''orbit'' \<and> anim_end b = NumF en \<longrightarrow>
           apply_animation dur ct ps b = ps(anim_property b := raw_field (anim_to b)))"
proof -
  have a: "apply_animation dur ct q a = q" for q
    using assms by (simp add: apply_animation_past_end)
  have "apply_animation dur ct ps b = ps(anim_property b := raw_field (anim_to b))"
    if "anim_property b \<noteq> ''orbit''" and "anim_end b = NumF en" for b
    using that assms(3,4) by (simp add: apply_animation_past_end)
  with a show ?thesis by simp
qed

theorem orbit_past_end_no_update_witness:
  "drawVisualization
     (single_layer_vis 5000 ''circle'' base_props
        [orbit_animation Absent Absent (NumF 1000) (NumF 3000)]) (4 / 5)
   = [(''circle'', base_props)]"
  using orbit_past_end_no_update
    [of "orbit_animation Absent Absent (NumF 1000) (NumF 3000)" 3000 4000 5000 base_props]
  by (simp add: drawVisualization_def single_layer_vis_def resolve_layer_def
      orbit_animation_def)

text \<open>
  C5. A visualization of 5000 ms with one layer and one animation of a property other
  than \<open>orbit\<close>, with start 1000, end 3000, from 0, to 100 and a linear easing: at progress
  1000/5000 the property resolves to 0, at 3000/5000 to 100, at 4000/5000 to 100, and at
  progress 0 the layer keeps its base properties.
\<close>

theorem timeline_example:
  assumes "k \<noteq> ''orbit''"
  shows "drawVisualization
           (single_layer_vis 5000 ty base
              [linear_animation k (NumF 0) (NumF 100) (NumF 1000) (NumF 3000)]) (1000 / 5000)
           = [(ty, base(k := Num (Fin 0)))]
       \<and> drawVisualization
           (single_layer_vis 5000 ty base
              [linear_animation k (NumF 0) (NumF 100) (NumF 1000) (NumF 3000)]) (3000 / 5000)
           = [(ty, base(k := Num (Fin 100)))]
       \<and> drawVisualization
           (single_layer_vis 5000 ty base
              [linear_animation k (NumF 0) (NumF 100) (NumF 1000) (NumF 3000)]) (4000 / 5000)
           = [(ty, base(k := Num (Fin 100)))]
       \<and> drawVisualization
           (single_layer_vis 5000 ty base
              [linear_animation k (NumF 0) (NumF 100) (NumF 1000) (NumF 3000)]) 0
           = [(ty, base)]"
  using assms
  by (simp add: drawVisualization_def single_layer_vis_def linear_animation_def
      resolve_layer_def apply_animation_def applyEasing_def Let_def)

theorem timeline_example_witness:
  "drawVisualization
     (single_layer_vis 5000 ''rectangle'' base_props
        [linear_animation ''width'' (NumF 0) (NumF 100) (NumF 1000) (NumF 3000)]) (3000 / 5000)
   = [(''rectangle'', base_props(''width'' := Num (Fin 100)))]
   \<and> drawVisualization
     (single_layer_vis 5000 ''rectangle'' base_props
        [linear_animation ''width'' (NumF 0) (NumF 100) (NumF 1000) (NumF 3000)]) 0
   = [(''rectangle'', base_props)]"
  using timeline_example [of "''width''" "''rectangle''" base_props]
  by simp

text \<open>
  C6, as the claim states it, fails: the later of two overlapping animations of a
  property does not win when an animation declared after both assigns the property too.
  With \<open>x\<close> animated from 0 to 100 on [0, 4000] and from 200 to 300 on [1000, 3000],
  both active at 2000, and a third animation of \<open>x\<close> from 500 to 600 on [0, 500] declared
  last, the third is past its end at 2000 and freezes \<open>x\<close> at 600, while the second of
  the two computes 250.
\<close>

theorem third_animation_counterexample:
  "anim_property (three_x_animations ! 0) = anim_property (three_x_animations ! 1)
   \<and> in_window 5000 (2 / 5 * 5000) (three_x_animations ! 0)
   \<and> in_window 5000 (2 / 5 * 5000) (three_x_animations ! 1)
   \<and> drawVisualization (single_layer_vis 5000 ''circle'' base_props three_x_animations) (2 / 5)
       = [(''circle'', base_props(''x'' := Num (Fin 600)))]
   \<and> apply_animation 5000 (2 / 5 * 5000) base_props (three_x_animations ! 1) ''x''
       = Num (Fin 250)
   \<and> Num (Fin 600) \<noteq> Num (Fin 250)"
  by (simp add: drawVisualization_def single_layer_vis_def resolve_layer_def
      three_x_animations_def linear_animation_def apply_animation_def applyEasing_def
      in_window_def Let_def)

text \<open>
  C6, amended: in a layer whose list of animations holds two animations \<open>a1\<close> and, later,
  \<open>a2\<close> of the same property, both active at \<open>currentTime\<close>, every property \<open>k\<close> that \<open>a2\<close>
  assigns resolves to the value \<open>a2\<close> computes (the same from whatever properties \<open>ps\<close> it
  starts), provided no animation declared after \<open>a2\<close> assigns \<open>k\<close> at that time: the base
  properties, \<open>a1\<close> and everything declared before \<open>a2\<close> have no influence. Animations
  declared after \<open>a2\<close> that have not started, orbits past their end and animations of
  other properties do not matter.
\<close>

theorem later_animation_wins:
  assumes "anim_property a1 = anim_property a2"
    and "in_window dur ct a1" and "in_window dur ct a2"
    and "animations l = Some (pre @ a1 # mid @ a2 # post)"
    and "k \<in> written_keys a2"
    and "\<forall>c \<in> set post. \<not> assigns dur ct c k"
  shows "snd (resolve_layer dur ct l) k = apply_animation dur ct ps a2 k"
proof -
  let ?f = "apply_animation dur ct"
  have "foldl ?f (props l) (pre @ a1 # mid @ a2 # post) k
        = foldl ?f (?f (foldl ?f (props l) (pre @ a1 # mid)) a2) post k"
    by simp
  also have "\<dots> = ?f (foldl ?f (props l) (pre @ a1 # mid)) a2 k"
    using assms(6) by (rule foldl_unassigned)
  also have "\<dots> = ?f ps a2 k"
    using assms(3,5) by (rule apply_animation_overwrites)
  finally show ?thesis using assms(4) by (simp add: resolve_layer_def)
qed

theorem later_animation_wins_witness:
  "snd (resolve_layer 5000 2000
          \<lparr>layer_id = ''l1'', layer_type = ''circle'', props = base_props,
           animations = Some [linear_animation ''x'' (NumF 0) (NumF 100) (NumF 0) (NumF 4000),
                              linear_animation ''x'' (NumF 200) (NumF 300) (NumF 1000) (NumF 3000),
                              linear_animation ''x'' (NumF 500) (NumF 600) (NumF 2500) (NumF 4500),
                              orbit_animation Absent Absent (NumF 100) (NumF 1500)]\<rparr>)
     ''x''
   = Num (Fin 250)"
  using later_animation_wins
    [of "linear_animation ''x'' (NumF 0) (NumF 100) (NumF 0) (NumF 4000)"
        "linear_animation ''x'' (NumF 200) (NumF 300) (NumF 1000) (NumF 3000)"
        5000 2000
        "\<lparr>layer_id = ''l1'', layer_type = ''circle'', props = base_props,
          animations = Some [linear_animation ''x'' (NumF 0) (NumF 100) (NumF 0) (NumF 4000),
                             linear_animation ''x'' (NumF 200) (NumF 300) (NumF 1000) (NumF 3000),
                             linear_animation ''x'' (NumF 500) (NumF 600) (NumF 2500) (NumF 4500),
                             orbit_animation Absent Absent (NumF 100) (NumF 1500)]\<rparr>"
        "[]" "[]"
        "[linear_animation ''x'' (NumF 500) (NumF 600) (NumF 2500) (NumF 4500),
          orbit_animation Absent Absent (NumF 100) (NumF 1500)]"
        "''x''" "\<lambda>_. Undefined"]
  by (simp add: in_window_def written_keys_def assigns_def linear_animation_def
      orbit_animation_def apply_animation_def applyEasing_def Let_def)

text \<open>
  C7. An orbit with centre (350, 225), radius 100, a linear easing and the window from 0
  to the duration resolves, at every progress \<open>p\<close> between 0 and 1, to
  \<open>x = 350 + cos(2 pi p) 100\<close> and \<open>y = 225 + sin(2 pi p) 100\<close>, whatever \<open>from\<close> and \<open>to\<close>
  hold; at progress 0 that is (450, 225) and at progress 1/4 it is (350, 325). Numbers
  are the reals here, so the values are exact.
\<close>

theorem orbit_position:
  assumes "0 < d" and "0 \<le> p" and "p \<le> 1"
  shows "drawVisualization
           (single_layer_vis d ty base [orbit_animation f t (NumF 0) (NumF d)]) p
         = [(ty, base(''x'' := Num (Fin (350 + cos (2 * pi * p) * 100)),
                      ''y'' := Num (Fin (225 + sin (2 * pi * p) * 100))))]
       \<and> drawVisualization
           (single_layer_vis d ty base [orbit_animation f t (NumF 0) (NumF d)]) 0
         = [(ty, base(''x'' := Num (Fin 450), ''y'' := Num (Fin 225)))]
       \<and> drawVisualization
           (single_layer_vis d ty base [orbit_animation f t (NumF 0) (NumF d)]) (1 / 4)
         = [(ty, base(''x'' := Num (Fin 350), ''y'' := Num (Fin 325)))]"
proof -
  have g: "drawVisualization
           (single_layer_vis d ty base [orbit_animation f t (NumF 0) (NumF d)]) q
         = [(ty, base(''x'' := Num (Fin (350 + cos (2 * pi * q) * 100)),
                      ''y'' := Num (Fin (225 + sin (2 * pi * q) * 100))))]"
    if "0 \<le> q" and "q \<le> 1" for q
    using that assms(1)
    by (simp add: drawVisualization_def single_layer_vis_def orbit_animation_def
        resolve_layer_def apply_animation_def applyEasing_def Let_def mult_le_cancel_right1)
  have "drawVisualization
           (single_layer_vis d ty base [orbit_animation f t (NumF 0) (NumF d)]) 0
         = [(ty, base(''x'' := Num (Fin 450), ''y'' := Num (Fin 225)))]"
    using g [of 0] by simp
  moreover have "drawVisualization
           (single_layer_vis d ty base [orbit_animation f t (NumF 0) (NumF d)]) (1 / 4)
         = [(ty, base(''x'' := Num (Fin 350), ''y'' := Num (Fin 325)))]"
    using g [of "1 / 4"] by simp
  ultimately show ?thesis using g [of p] assms(2,3) by simp
qed

theorem orbit_position_witness:
  "drawVisualization
     (single_layer_vis 8000 ''circle'' base_props
        [orbit_animation (NumF 1) NullF (NumF 0) (NumF 8000)]) (1 / 2)
   = [(''circle'', base_props(''x'' := Num (Fin 250), ''y'' := Num (Fin 225)))]"
  using orbit_position [of 8000 "1 / 2" "''circle''" base_props "NumF 1" NullF]
  by simp

text \<open>
  C10, as the claim states it, fails: an animation of \<open>x\<close> with \<open>to\<close> null whose \<open>end\<close> is
  0 has its end replaced by the duration, so at progress 1/2 of a visualization of
  5000 ms, where \<open>currentTime = 2500 > end\<close>, it is active and resolves \<open>x\<close> with the
  default 0 for \<open>to\<close>: from 10 half-way to 0 is 5, not null.
\<close>

theorem absent_to_end_zero_counterexample:
  "anim_to (linear_animation ''x'' (NumF 10) NullF (NumF 0) (NumF 0)) = NullF
   \<and> anim_end (linear_animation ''x'' (NumF 10) NullF (NumF 0) (NumF 0)) = NumF 0
   \<and> (0 :: real) < 1 / 2 * 5000
   \<and> drawVisualization
       (single_layer_vis 5000 ''circle'' base_props
          [linear_animation ''x'' (NumF 10) NullF (NumF 0) (NumF 0)]) (1 / 2)
     = [(''circle'', base_props(''x'' := Num (Fin 5)))]
   \<and> Num (Fin 5) \<noteq> raw_field NullF"
  by (simp add: drawVisualization_def single_layer_vis_def resolve_layer_def
      linear_animation_def apply_animation_def applyEasing_def Let_def)

text \<open>
  C10, amended: for every animation of a property other than \<open>orbit\<close> whose \<open>to\<close> is
  absent or null and whose \<open>end\<close> is a number other than 0, at every \<open>currentTime > end\<close>
  the property is overwritten with the raw \<open>to\<close> (\<open>undefined\<close> or \<open>null\<close>), which is
  neither the number 0 nor the layer's base value; inside the window the same animation
  is computed with 0 for \<open>to\<close>.
\<close>

theorem absent_to_freezes_raw:
  assumes "anim_property a \<noteq> ''orbit''"
    and "anim_to a = Absent \<or> anim_to a = NullF"
    and "anim_end a = NumF en" and "en \<noteq> 0" and "en < ct"
  shows "apply_animation dur ct ps a = ps(anim_property a := raw_field (anim_to a))
     \<and> (raw_field (anim_to a) = Undefined \<or> raw_field (anim_to a) = Null)
     \<and> apply_animation dur ct ps a (anim_property a) \<noteq> Num (Fin 0)
     \<and> (\<forall>ct'. in_window dur ct' a \<longrightarrow>
          apply_animation dur ct' ps a
            = ps(anim_property a :=
                   Num (js_add (Fin (nullish_zero (anim_from a)))
                      (js_mul (Fin (0 - nullish_zero (anim_from a)))
                         (applyEasing
                            (js_div (Fin (ct' - or_default (anim_start a) 0))
                               (Fin (en - or_default (anim_start a) 0)))
                            (anim_easing a))))))"
proof -
  have past: "apply_animation dur ct ps a = ps(anim_property a := raw_field (anim_to a))"
    using assms(1,3,4,5) by (simp add: apply_animation_past_end)
  have raw: "raw_field (anim_to a) = Undefined \<or> raw_field (anim_to a) = Null"
    using assms(2) by auto
  have zero: "nullish_zero (anim_to a) = 0"
    using assms(2) by auto
  have win: "apply_animation dur ct' ps a
            = ps(anim_property a :=
                   Num (js_add (Fin (nullish_zero (anim_from a)))
                      (js_mul (Fin (0 - nullish_zero (anim_from a)))
                         (applyEasing
                            (js_div (Fin (ct' - or_default (anim_start a) 0))
                               (Fin (en - or_default (anim_start a) 0)))
                            (anim_easing a)))))"
    if "in_window dur ct' a" for ct'
    using that assms(1,3,4) zero
    by (simp add: apply_animation_def in_window_def Let_def)
  from raw have "(ps(anim_property a := raw_field (anim_to a))) (anim_property a) \<noteq> Num (Fin 0)"
    by auto
  with past raw win show ?thesis by simp
qed

theorem absent_to_freezes_raw_witness:
  "drawVisualization
     (single_layer_vis 5000 ''circle'' base_props
        [linear_animation ''x'' (NumF 10) NullF (NumF 1000) (NumF 3000)]) (4 / 5)
   = [(''circle'', base_props(''x'' := Null))]"
  using absent_to_freezes_raw
    [of "linear_animation ''x'' (NumF 10) NullF (NumF 1000) (NumF 3000)" 3000 4000 5000 base_props]
  by (simp add: drawVisualization_def single_layer_vis_def resolve_layer_def
      linear_animation_def)

section \<open>Properties of the broadcast hub\<close>

lemma forEach_broadcast_callback:
  "forEach (broadcast_callback wr sfy event d) cs
     = Normal (map (\<lambda>c. c\<lparr>res := state_of (send_event wr sfy event d (res c))\<rparr>) cs)"
proof (induction cs)
  case Nil
  show ?case by simp
next
  case (Cons c cs)
  have "broadcast_callback wr sfy event d c
          = Normal (c\<lparr>res := state_of (send_event wr sfy event d (res c))\<rparr>)"
    by (cases "send_event wr sfy event d (res c)") (simp_all add: broadcast_callback_def)
  with Cons.IH show ?case by simp
qed

lemma send_event_delivers:
  assumes "wr r (event_line event) = Normal r1" and "sfy d = Some js"
    and "wr r1 (data_line js) = Normal r2"
  shows "state_of (send_event wr sfy event d r) = r2"
  using assms by (simp add: send_event_def)

text \<open>
  C8. For every list of clients, every event and every behaviour of the transport,
  \<open>broadcast\<close> ends normally, keeps every client, and leaves the stream of each client
  in the state its own delivery attempt (\<open>send_event\<close>: the two writes, ended by the
  first one that throws) produces. The attempt on one client is made whatever happened
  on the others: a client whose two writes succeed has received the event line and the
  data line.
\<close>

theorem broadcast_isolates_failures:
  "\<exists>cs'. broadcast wr sfy event d cs = Normal cs'
       \<and> length cs' = length cs
       \<and> (\<forall>i < length cs.
             client_id (cs' ! i) = client_id (cs ! i)
           \<and> res (cs' ! i) = state_of (send_event wr sfy event d (res (cs ! i)))
           \<and> (\<forall>r1 r2 js.
                 wr (res (cs ! i)) (event_line event) = Normal r1 \<and> sfy d = Some js
                 \<and> wr r1 (data_line js) = Normal r2
                 \<longrightarrow> res (cs' ! i) = r2))"
proof -
  let ?cs' = "map (\<lambda>c. c\<lparr>res := state_of (send_event wr sfy event d (res c))\<rparr>) cs"
  have "broadcast wr sfy event d cs = Normal ?cs'"
    by (simp add: broadcast_def forEach_broadcast_callback)
  moreover have "length ?cs' = length cs"
    by simp
  moreover have "client_id (?cs' ! i) = client_id (cs ! i)
           \<and> res (?cs' ! i) = state_of (send_event wr sfy event d (res (cs ! i)))
           \<and> (\<forall>r1 r2 js.
                 wr (res (cs ! i)) (event_line event) = Normal r1 \<and> sfy d = Some js
                 \<and> wr r1 (data_line js) = Normal r2
                 \<longrightarrow> res (?cs' ! i) = r2)"
    if "i < length cs" for i
    using that by (auto simp: send_event_delivers)
  ultimately show ?thesis by blast
qed

theorem broadcast_isolates_failures_witness:
  "broadcast log_write no_stringify ''ping'' (GenerationStarted ''a'' ''q'') three_clients
     = Normal
        [\<lparr>client_id = ''c1'', res = ([event_line ''ping'', data_line ''{}''], False)\<rparr>,
         \<lparr>client_id = ''c2'', res = ([], True)\<rparr>,
         \<lparr>client_id = ''c3'', res = ([event_line ''ping'', data_line ''{}''], False)\<rparr>]"
  using broadcast_isolates_failures
    [of log_write no_stringify "''ping''" "GenerationStarted ''a'' ''q''" three_clients]
  by (simp add: broadcast_def broadcast_callback_def send_event_def log_write_def
      no_stringify_def three_clients_def)

section \<open>Properties of the scene normalization\<close>

lemma truthy_js_or: "truthy b \<Longrightarrow> truthy (js_or a b)"
  by (cases a) simp_all

text \<open>
  C9, as the claim states it, fails: \<open>v.duration || 8000\<close> keeps every truthy value, so a
  scene whose duration is \<open>-5\<close> is returned with the duration \<open>-5\<close>, which is not
  positive.
\<close>

theorem negative_duration_counterexample:
  "groqVizJSON (VizParsed negative_duration_scene) 17
     = Inr (JObj [(''id'', JStr ''vis_17''), (''duration'', JNum (- 5)), (''fps'', JNum 30),
                  (''layers'', JArr [])])
   \<and> \<not> (0 :: real) < - 5"
  by (simp add: normalize_parsed_def normalize_visualization_def show_nat.simps
      negative_duration_scene_def)

text \<open>
  C9, amended: for every scene object, normalization returns a visualization in which
  each of \<open>id\<close>, \<open>duration\<close> and \<open>fps\<close> that is missing or falsy (null, false, 0, the
  empty string) is replaced by its default (the generated identifier, 8000, 30) and
  every truthy one is kept as it is, and \<open>layers\<close> is kept when it is an array and is
  the empty array otherwise. The duration returned is truthy; it is a positive number
  whenever the duration supplied is missing, falsy or a positive number.
\<close>

theorem normalization_defaults:
  assumes "v = js_or (get_prop (JObj kvs) ''visualization'') (JObj [])"
  shows "\<exists>vis. groqVizJSON (VizParsed (JObj kvs)) now = Inr vis
     \<and> get_prop vis ''id'' = Some (js_or (get_prop v ''id'') (JStr (''vis_'' @ show_nat now)))
     \<and> get_prop vis ''duration'' = Some (js_or (get_prop v ''duration'') (JNum 8000))
     \<and> get_prop vis ''fps'' = Some (js_or (get_prop v ''fps'') (JNum 30))
     \<and> get_prop vis ''layers'' =
           Some (case get_prop v ''layers'' of Some (JArr ls) \<Rightarrow> JArr ls | _ \<Rightarrow> JArr [])
     \<and> (\<forall>d. get_prop vis ''duration'' = Some d \<longrightarrow> truthy d)
     \<and> ((get_prop v ''duration'' = None
          \<or> (\<exists>d. get_prop v ''duration'' = Some d \<and> \<not> truthy d)
          \<or> (\<exists>r. get_prop v ''duration'' = Some (JNum r) \<and> 0 < r))
         \<longrightarrow> (\<exists>r. get_prop vis ''duration'' = Some (JNum r) \<and> 0 < r))"
  using assms
  by (auto simp: normalize_parsed_def normalize_visualization_def Let_def truthy_js_or)

theorem normalization_defaults_witness:
  "groqVizJSON (VizParsed malformed_scene) 17
     = Inr (JObj [(''id'', JStr ''vis_17''), (''duration'', JNum 8000), (''fps'', JNum 30),
                  (''layers'', JArr [])])"
  using normalization_defaults
    [of "JObj [(''id'', JStr []), (''duration'', JNum 0), (''layers'', JStr ''none'')]"
        "[(''text'', JStr ''hi''),
          (''visualization'',
             JObj [(''id'', JStr []), (''duration'', JNum 0), (''layers'', JStr ''none'')])]"
        17]
  by (simp add: normalize_parsed_def normalize_visualization_def show_nat.simps
      malformed_scene_def)

section \<open>Properties of the submission handler\<close>

lemma trim_with_None: "strip_prefix ws s = None \<Longrightarrow> trim_with ws s = s"
  by (simp add: trim_with.simps)

lemma do_broadcast_Normal:
  "do_broadcast wr sfy event d st
     = Normal (st\<lparr>clients :=
         map (\<lambda>c. c\<lparr>res := state_of (send_event wr sfy event d (res c))\<rparr>) (clients st)\<rparr>)"
  by (simp add: do_broadcast_def broadcast_def forEach_broadcast_callback)

lemma stream_deltas_Normal:
  "\<exists>st' acc'. stream_deltas wr sfy aid qid ds acc st = Normal (st', acc')
      \<and> questions st' = questions st \<and> answers st' = answers st \<and> reply st' = reply st
      \<and> acc' = acc @ concat ds"
proof (induction ds arbitrary: acc st)
  case Nil
  show ?case by simp
next
  case (Cons delta ds)
  let ?st1 = "st\<lparr>clients := map (\<lambda>c. c\<lparr>res := state_of (send_event wr sfy
      ''answer_partial'' (AnswerPartial aid (acc @ delta) qid) (res c))\<rparr>) (clients st)\<rparr>"
  from Cons.IH [of "acc @ delta" ?st1] show ?case
    by (auto simp: do_broadcast_Normal)
qed

lemma groqStreamText_cases:
  "\<exists>st'. questions st' = questions st \<and> answers st' = answers st \<and> reply st' = reply st
      \<and> groqStreamText wr sfy aid qid stream st
          = (if stream_throws stream then Throw (st', concat (deltas stream))
             else Normal (st', concat (deltas stream)))"
proof -
  obtain st' acc' where
    "stream_deltas wr sfy aid qid (deltas stream) [] st = Normal (st', acc')"
    "questions st' = questions st" "answers st' = answers st" "reply st' = reply st"
    "acc' = concat (deltas stream)"
    using stream_deltas_Normal [of wr sfy aid qid "deltas stream" "[]" st] by auto
  then show ?thesis by (auto simp: groqStreamText_def)
qed

lemma try_block_fails:
  assumes "body_userId b = Some u" "u \<noteq> []" "body_question b = Some q" "q \<noteq> []"
    and "generation_fails orc stream viz"
  shows "\<exists>st'. try_block wr sfy orc stream viz b st = Throw st'
      \<and> answers st' = answers st \<and> reply st' = reply st
      \<and> questions st' = questions st @
           [\<lparr>q_id = ''q_'' @ uuid_question orc, q_userId = u, q_question = trim q,
             q_answerId = ''a_'' @ uuid_answer orc, q_timestamp = iso_question orc\<rparr>]"
proof -
  let ?qrec = "\<lparr>q_id = ''q_'' @ uuid_question orc, q_userId = u, q_question = trim q,
             q_answerId = ''a_'' @ uuid_answer orc, q_timestamp = iso_question orc\<rparr>"
  let ?st1 = "st\<lparr>questions := questions st @ [?qrec]\<rparr>"
  obtain st2 where st2:
      "do_broadcast wr sfy ''question_created'' (QuestionCreated ?qrec) ?st1 = Normal st2"
      "questions st2 = questions ?st1" "answers st2 = answers st" "reply st2 = reply st"
    by (simp add: do_broadcast_Normal)
  obtain st3 where st3:
      "do_broadcast wr sfy ''generation_started''
         (GenerationStarted (''a_'' @ uuid_answer orc) (''q_'' @ uuid_question orc)) st2
       = Normal st3"
      "questions st3 = questions st2" "answers st3 = answers st2" "reply st3 = reply st2"
    by (simp add: do_broadcast_Normal)
  obtain st4 where st4: "questions st4 = questions st3" "answers st4 = answers st3"
      "reply st4 = reply st3"
      "groqStreamText wr sfy (''a_'' @ uuid_answer orc) (''q_'' @ uuid_question orc) stream st3
          = (if stream_throws stream then Throw (st4, concat (deltas stream))
             else Normal (st4, concat (deltas stream)))"
    using groqStreamText_cases by blast
  show ?thesis
  proof (cases "stream_throws stream")
    case True
    then show ?thesis using assms(1-4) st2 st3 st4
      by (simp add: try_block_def Let_def)
  next
    case False
    with assms(5) obtain err where "groqVizJSON viz (now_viz orc) = Inl err"
      by (cases "groqVizJSON viz (now_viz orc)") (auto simp: generation_fails_def)
    then show ?thesis using False assms(1-4) st2 st3 st4
      by (simp add: try_block_def Let_def)
  qed
qed

text \<open>
  When both external calls return, the answer stored and the reply carry the identifiers
  that were allocated with the question.
\<close>

lemma post_questions_success:
  assumes "body_userId b = Some u" "u \<noteq> []" "body_question b = Some q" "q \<noteq> []"
    and "\<not> stream_throws stream" and "groqVizJSON viz (now_viz orc) = Inr vis"
  shows "\<exists>st'. post_questions wr sfy orc stream viz b st = Normal st'
      \<and> reply st' = Some (Success (''q_'' @ uuid_question orc) (''a_'' @ uuid_answer orc))
      \<and> answers st' = answers st @
           [\<lparr>a_id = ''a_'' @ uuid_answer orc, a_text = concat (deltas stream),
             a_visualization = vis, a_timestamp = iso_answer orc\<rparr>]
      \<and> questions st' = questions st @
           [\<lparr>q_id = ''q_'' @ uuid_question orc, q_userId = u, q_question = trim q,
             q_answerId = ''a_'' @ uuid_answer orc, q_timestamp = iso_question orc\<rparr>]"
proof -
  let ?qrec = "\<lparr>q_id = ''q_'' @ uuid_question orc, q_userId = u, q_question = trim q,
             q_answerId = ''a_'' @ uuid_answer orc, q_timestamp = iso_question orc\<rparr>"
  let ?ans = "\<lparr>a_id = ''a_'' @ uuid_answer orc, a_text = concat (deltas stream),
             a_visualization = vis, a_timestamp = iso_answer orc\<rparr>"
  let ?st1 = "st\<lparr>questions := questions st @ [?qrec]\<rparr>"
  obtain st2 where st2:
      "do_broadcast wr sfy ''question_created'' (QuestionCreated ?qrec) ?st1 = Normal st2"
      "questions st2 = questions ?st1" "answers st2 = answers st" "reply st2 = reply st"
    by (simp add: do_broadcast_Normal)
  obtain st3 where st3:
      "do_broadcast wr sfy ''generation_started''
         (GenerationStarted (''a_'' @ uuid_answer orc) (''q_'' @ uuid_question orc)) st2
       = Normal st3"
      "questions st3 = questions st2" "answers st3 = answers st2" "reply st3 = reply st2"
    by (simp add: do_broadcast_Normal)
  obtain st4 where st4: "questions st4 = questions st3" "answers st4 = answers st3"
      "reply st4 = reply st3"
      "groqStreamText wr sfy (''a_'' @ uuid_answer orc) (''q_'' @ uuid_question orc) stream st3
          = (if stream_throws stream then Throw (st4, concat (deltas stream))
             else Normal (st4, concat (deltas stream)))"
    using groqStreamText_cases by blast
  obtain st6 where st6:
      "do_broadcast wr sfy ''answer_created'' (AnswerCreated ?ans)
         (st4\<lparr>answers := answers st4 @ [?ans]\<rparr>) = Normal st6"
      "questions st6 = questions st4" "answers st6 = answers st4 @ [?ans]"
    by (simp add: do_broadcast_Normal)
  have "try_block wr sfy orc stream viz b st
          = Normal (st6\<lparr>reply := Some (Success (''q_'' @ uuid_question orc)
                                        (''a_'' @ uuid_answer orc))\<rparr>)"
    using assms st2(1) st3(1) st4(4) st6(1) by (simp add: try_block_def Let_def)
  then show ?thesis
    using st2 st3 st4 st6 by (simp add: post_questions_def)
qed

lemma catch_block_result:
  "\<exists>st'. catch_block wr sfy orc b st = Normal st'
      \<and> answers st' = answers st @ [fallback_answer orc b]
      \<and> questions st' = questions st
      \<and> reply st' = Some (Success (''q_'' @ uuid_reply orc) (a_id (fallback_answer orc b)))"
  by (simp add: catch_block_def Let_def do_broadcast_Normal)

text \<open>
  C1. For every submission with a user id and a question whose generation fails (the
  text stream throws, or the scene call throws), whatever the server holds and
  whatever the transports of the clients do, the handler ends normally and replies with
  success, a question id and the id of the fallback answer; that answer is appended to
  the stored answers, its text holds the question of the request between quotes, and
  its visualization has the duration 7000 and no layers.
\<close>

theorem failed_generation_is_masked:
  assumes "body_userId b = Some u" and "u \<noteq> []"
    and "body_question b = Some q" and "q \<noteq> []"
    and "generation_fails orc stream viz"
  shows "\<exists>st'. post_questions wr sfy orc stream viz b st = Normal st'
      \<and> reply st' = Some (Success (''q_'' @ uuid_reply orc) (''a_'' @ uuid_fallback orc))
      \<and> answers st' = answers st @ [fallback_answer orc b]
      \<and> a_id (fallback_answer orc b) = ''a_'' @ uuid_fallback orc
      \<and> a_text (fallback_answer orc b)
          = ''Here is a brief overview of '' @ [CHR 0x22] @ q @ [CHR 0x22] @ ''.''
      \<and> get_prop (a_visualization (fallback_answer orc b)) ''duration'' = Some (JNum 7000)
      \<and> get_prop (a_visualization (fallback_answer orc b)) ''layers'' = Some (JArr [])"
proof -
  obtain st1 where st1: "try_block wr sfy orc stream viz b st = Throw st1"
      "answers st1 = answers st"
    using try_block_fails [OF assms] by blast
  obtain st2 where st2: "catch_block wr sfy orc b st1 = Normal st2"
      "answers st2 = answers st1 @ [fallback_answer orc b]"
      "reply st2 = Some (Success (''q_'' @ uuid_reply orc) (a_id (fallback_answer orc b)))"
    using catch_block_result by blast
  have "post_questions wr sfy orc stream viz b st = Normal st2"
    using st1 st2 by (simp add: post_questions_def)
  moreover have "a_id (fallback_answer orc b) = ''a_'' @ uuid_fallback orc"
    by (simp add: fallback_answer_def)
  moreover have "a_text (fallback_answer orc b)
          = ''Here is a brief overview of '' @ [CHR 0x22] @ q @ [CHR 0x22] @ ''.''"
    using assms(3) by (simp add: fallback_answer_def)
  moreover have
    "get_prop (a_visualization (fallback_answer orc b)) ''duration'' = Some (JNum 7000)"
    by (simp add: fallback_answer_def)
  moreover have
    "get_prop (a_visualization (fallback_answer orc b)) ''layers'' = Some (JArr [])"
    by (simp add: fallback_answer_def)
  ultimately show ?thesis using st1 st2 by simp
qed

theorem failed_generation_is_masked_witness:
  "generation_fails example_env two_deltas (VizParsed JNull)
   \<and> (\<exists>st'. post_questions log_write no_stringify example_env two_deltas (VizParsed JNull)
               example_body one_client_server = Normal st'
          \<and> reply st' = Some (Success ''q_4444'' ''a_3333'')
          \<and> answers st' = [fallback_answer example_env example_body])
   \<and> a_text (fallback_answer example_env example_body)
       = ''Here is a brief overview of '' @ [CHR 0x22] @ ''What is photosynthesis?''
           @ [CHR 0x22] @ ''.''"
proof -
  have f: "generation_fails example_env two_deltas (VizParsed JNull)"
    by (simp add: generation_fails_def normalize_parsed_def)
  have "body_userId example_body = Some ''u1''"
    and "body_question example_body = Some ''What is photosynthesis?''"
    by (simp_all add: example_body_def)
  from failed_generation_is_masked
    [OF this(1) _ this(2) _ f, of log_write no_stringify one_client_server]
  obtain st' where
    "post_questions log_write no_stringify example_env two_deltas (VizParsed JNull)
       example_body one_client_server = Normal st'"
    "reply st' = Some (Success (''q_'' @ uuid_reply example_env)
                               (''a_'' @ uuid_fallback example_env))"
    "answers st' = answers one_client_server @ [fallback_answer example_env example_body]"
    "a_text (fallback_answer example_env example_body)
       = ''Here is a brief overview of '' @ [CHR 0x22] @ ''What is photosynthesis?''
           @ [CHR 0x22] @ ''.''"
    by auto
  then show ?thesis using f
    by (auto simp: example_env_def one_client_server_def)
qed

text \<open>
  C2. The claim: also on the fallback path the answer stored has the id recorded on
  the question, and the reply carries the ids of the stored records. The \<open>catch\<close>
  block draws new identifiers instead. For the request
  \<open>{userId: "u1", question: "What is photosynthesis?"}\<close> with a text stream that throws,
  and four distinct results of \<open>uuidv4()\<close>, the stored question is \<open>q_1111\<close> with
  \<open>answerId a_2222\<close>, the stored answer is \<open>a_3333\<close>, and the reply names \<open>q_4444\<close> and
  \<open>a_3333\<close>.
\<close>

theorem fallback_draws_new_ids:
  "post_questions log_write no_stringify example_env failing_stream VizThrows example_body
       empty_server
     = Normal
        \<lparr>questions =
           [\<lparr>q_id = ''q_1111'', q_userId = ''u1'', q_question = ''What is photosynthesis?'',
             q_answerId = ''a_2222'', q_timestamp = ''2023-11-14T22:13:20.000Z''\<rparr>],
         answers = [fallback_answer example_env example_body],
         clients = [],
         reply = Some (Success ''q_4444'' ''a_3333'')\<rparr>
   \<and> a_id (fallback_answer example_env example_body) = ''a_3333''
   \<and> ''a_3333'' \<noteq> ''a_2222'' \<and> ''q_4444'' \<noteq> ''q_1111''"
proof -
  have t: "trim ''What is photosynthesis?'' = ''What is photosynthesis?''"
    by (simp add: trim_def trim_with_None white_space_def)
  have "try_block log_write no_stringify example_env failing_stream VizThrows example_body
          empty_server
     = Throw (empty_server\<lparr>questions :=
           [\<lparr>q_id = ''q_1111'', q_userId = ''u1'', q_question = ''What is photosynthesis?'',
             q_answerId = ''a_2222'', q_timestamp = ''2023-11-14T22:13:20.000Z''\<rparr>]\<rparr>)"
    by (simp add: try_block_def Let_def do_broadcast_Normal t groqStreamText_def
        example_env_def failing_stream_def example_body_def empty_server_def)
  then show ?thesis
    unfolding post_questions_def
    by (simp add: catch_block_def Let_def do_broadcast_Normal example_env_def
        empty_server_def fallback_answer_def)
qed

end
